theory Spec2Isabelle
  imports Main "HOL-Library.Sublist"
begin

section \<open>Python values\<close>

text \<open>
  The adapter of \<^verbatim>\<open>goldenverba/components/generation/OpenAIGenerator.py\<close> is
  translated function by function. A Python \<^verbatim>\<open>str\<close> is the list of its code
  points, so that \<^verbatim>\<open>line[6:]\<close>, \<^verbatim>\<open>s[0]\<close> and \<^verbatim>\<open>strip()\<close> count what
  Python counts; \<open>lit\<close> writes a literal.
\<close>

type_synonym str = "nat list"

abbreviation lit :: "string \<Rightarrow> str" where
  "lit s \<equiv> map of_char s"

text \<open>
  The values that \<^verbatim>\<open>json.loads\<close> returns and that \<^verbatim>\<open>json=\<close> sends: \<^verbatim>\<open>None\<close>,
  booleans, integers, floats, strings, lists and dicts keyed by strings. A float is
  carried by its \<^verbatim>\<open>repr\<close> (no operation of this program reads one). A dict is the
  list of its items; the keys of a Python dict are distinct.
\<close>

datatype pyval =
    PNone
  | PBool bool
  | PInt int
  | PFloat str
  | PStr str
  | PList "pyval list"
  | PDict "(str \<times> pyval) list"

text \<open>
  The exceptions that can end a call. \<open>TransportError\<close> stands for whatever the HTTP
  libraries raise when a request cannot be made; \<open>HTTPError\<close> is the one that
  \<^verbatim>\<open>raise_for_status\<close> raises, with the response's status and body.
\<close>

datatype error =
    TransportError
  | HTTPError nat str
  | JSONDecodeError
  | KeyError pyval
  | IndexError
  | TypeError
  | AttributeError
  | MissingCredentialError str

text \<open>\<^verbatim>\<open>str.isspace\<close> of one character, and \<^verbatim>\<open>str.strip()\<close>.\<close>

definition isspace :: "nat \<Rightarrow> bool" where
  "isspace c =
     (c \<in> {9, 10, 11, 12, 13, 28, 29, 30, 31, 32, 133, 160, 5760, 8232, 8233, 8239, 8287, 12288}
      \<or> (8192 \<le> c \<and> c \<le> 8202))"

definition strip :: "str \<Rightarrow> str" where
  "strip s = rev (dropWhile isspace (rev (dropWhile isspace s)))"

text \<open>
  \<^verbatim>\<open>key in v\<close> for a string \<open>key\<close>: a substring test on a string, an element test on
  a list, a key test on a dict, and a \<^verbatim>\<open>TypeError\<close> on anything else.
\<close>

fun py_contains :: "str \<Rightarrow> pyval \<Rightarrow> error + bool" where
  "py_contains key (PStr s) = Inr (sublist key s)"
| "py_contains key (PList xs) = Inr (PStr key \<in> set xs)"
| "py_contains key (PDict items) = Inr (map_of items key \<noteq> None)"
| "py_contains key v = Inl TypeError"

text \<open>\<^verbatim>\<open>v[key]\<close> for a string \<open>key\<close>: only a dict can be subscripted by a string.\<close>

fun py_getitem :: "pyval \<Rightarrow> str \<Rightarrow> error + pyval" where
  "py_getitem (PDict items) key =
     (case map_of items key of None \<Rightarrow> Inl (KeyError (PStr key)) | Some v \<Rightarrow> Inr v)"
| "py_getitem v key = Inl TypeError"

text \<open>\<^verbatim>\<open>v[0]\<close>: the first element of a list, the first character of a string.\<close>

fun py_getitem_0 :: "pyval \<Rightarrow> error + pyval" where
  "py_getitem_0 (PList xs) = (case xs of [] \<Rightarrow> Inl IndexError | x # _ \<Rightarrow> Inr x)"
| "py_getitem_0 (PStr s) = (case s of [] \<Rightarrow> Inl IndexError | c # _ \<Rightarrow> Inr (PStr [c]))"
| "py_getitem_0 (PDict items) = Inl (KeyError (PInt 0))"
| "py_getitem_0 v = Inl TypeError"

text \<open>\<^verbatim>\<open>v.get(key)\<close>: a method of dicts, \<^verbatim>\<open>None\<close> when the key is missing.\<close>

fun py_get :: "pyval \<Rightarrow> str \<Rightarrow> error + pyval" where
  "py_get (PDict items) key =
     Inr (case map_of items key of None \<Rightarrow> PNone | Some v \<Rightarrow> v)"
| "py_get v key = Inl AttributeError"

text \<open>
  \<^verbatim>\<open>for x in v\<close>: the elements of a list, the characters of a string, the keys of a
  dict.
\<close>

fun py_iter :: "pyval \<Rightarrow> error + pyval list" where
  "py_iter (PList xs) = Inr xs"
| "py_iter (PStr s) = Inr (map (\<lambda>c. PStr [c]) s)"
| "py_iter (PDict items) = Inr (map (\<lambda>(k, v). PStr k) items)"
| "py_iter v = Inl TypeError"

section \<open>The adapter's data\<close>

text \<open>
  The class \<^verbatim>\<open>InputConfig\<close> of \<^verbatim>\<open>goldenverba.components.types\<close> is built with
  the four keyword arguments below. Its values are whatever the caller stores: the
  constructor stores model identifiers decoded from the provider's response, and
  \<^verbatim>\<open>generate_stream\<close> reads strings.
\<close>

record 'v InputConfig =
  cfg_type :: str
  cfg_value :: 'v
  cfg_description :: str
  cfg_values :: "'v list"

text \<open>A turn of the conversation: an object with the attributes \<^verbatim>\<open>type\<close> and \<^verbatim>\<open>content\<close>.\<close>

record conversation_item =
  type :: str
  content :: str

text \<open>The object itself: what \<^verbatim>\<open>__init__\<close> assigns to \<^verbatim>\<open>self\<close>.\<close>

record OpenAIGenerator =
  name :: str
  description :: str
  context_window :: int
  config :: "str \<rightharpoonup> pyval InputConfig"

text \<open>What \<^verbatim>\<open>requests.get\<close> returns, and what \<^verbatim>\<open>client.stream\<close> opens.\<close>

record response =
  status_code :: nat
  body :: str

record stream_response =
  stream_status_code :: nat
  lines :: "str list"

record request =
  req_url :: str
  req_json :: pyval
  req_headers :: "(str \<times> str) list"

text \<open>
  Everything outside the file is a parameter: the ambient variables, the two HTTP
  calls and \<^verbatim>\<open>json.loads\<close> (which \<^verbatim>\<open>response.json()\<close> applies to the body).
\<close>

record world =
  environ :: "str \<rightharpoonup> str"
  requests_get :: "str \<Rightarrow> (str \<times> str) list \<Rightarrow> error + response"
  httpx_stream :: "request \<Rightarrow> error + stream_response"
  json_loads :: "str \<Rightarrow> error + pyval"

text \<open>
  What a call does besides returning: the requests it makes, the diagnostics it logs
  (\<^verbatim>\<open>msg.info\<close> of a prefix followed by \<^verbatim>\<open>str(e)\<close>) and the chunks it yields, in order.
\<close>

datatype event =
    Get str "(str \<times> str) list"
  | Info str error
  | Post request
  | Yield pyval

definition os_getenv :: "world \<Rightarrow> str \<Rightarrow> str \<Rightarrow> str" where
  "os_getenv w key fallback = (case environ w key of None \<Rightarrow> fallback | Some v \<Rightarrow> v)"

text \<open>
  Modelled from the spec: \<^verbatim>\<open>get_token\<close> of \<^verbatim>\<open>goldenverba.components.util\<close> is not
  among the sources. The spec calls it a credential resolver keyed by a named secret,
  whose result may be absent: a lookup among the ambient values.
\<close>

definition get_token :: "world \<Rightarrow> str \<Rightarrow> str option" where
  "get_token w env = environ w env"

text \<open>
  Modelled from the spec: \<^verbatim>\<open>get_environment\<close> of \<^verbatim>\<open>goldenverba.components.util\<close> is
  not among the sources. The spec has it prefer the value supplied by the configuration
  over the ambient one, and fail with a \<^verbatim>\<open>MissingCredentialError\<close> when neither source
  has one; the error carries the call's fourth argument.
\<close>

definition get_environment ::
  "world \<Rightarrow> (str \<rightharpoonup> str InputConfig) \<Rightarrow> str \<Rightarrow> str \<Rightarrow> str \<Rightarrow> error + str" where
  "get_environment w cfg option_name env error_msg =
     (case cfg option_name of
        Some entry \<Rightarrow> Inr (cfg_value entry)
      | None \<Rightarrow>
          (case environ w env of
             Some v \<Rightarrow> Inr v
           | None \<Rightarrow> Inl (MissingCredentialError error_msg)))"

text \<open>
  Modelled from the spec: the base class \<^verbatim>\<open>Generator\<close> is not among the sources. The
  spec lists \<^verbatim>\<open>Model\<close>, \<^verbatim>\<open>System Message\<close>, \<^verbatim>\<open>API Key\<close> and \<^verbatim>\<open>URL\<close> as all the
  options of the configuration, so \<^verbatim>\<open>super().__init__()\<close> leaves it empty.
\<close>

definition Generator_config :: "str \<rightharpoonup> pyval InputConfig" where
  "Generator_config = Map.empty"

section \<open>Prompt assembly\<close>

text \<open>
  \<^verbatim>\<open>prepare_messages\<close> (lines 130 to 150). The loop appends one dict per turn; the
  character 39 is the apostrophe that the template puts around the query.
\<close>

definition prepare_messages ::
  "OpenAIGenerator \<Rightarrow> str \<Rightarrow> str \<Rightarrow> conversation_item list \<Rightarrow> str \<Rightarrow> pyval list" where
  "prepare_messages self query context conversation system_message =
     (let messages =
            [PDict [(lit ''role'', PStr (lit ''system'')),
                    (lit ''content'', PStr system_message)]];
          messages =
            foldl (\<lambda>messages message.
                     messages @ [PDict [(lit ''role'', PStr (type message)),
                                        (lit ''content'', PStr (content message))]])
                  messages conversation
      in messages @
           [PDict [(lit ''role'', PStr (lit ''user'')),
                   (lit ''content'',
                    PStr (lit ''Answer this query: '' @ [39] @ query @ [39]
                          @ lit '' with this provided context: '' @ context))]])"

section \<open>Stream generation\<close>

text \<open>
  The test of line 119, \<^verbatim>\<open>"delta" in choice and "content" in choice["delta"]\<close>: the
  right operand is evaluated only when the left one is true.
\<close>

definition delta_has_content :: "pyval \<Rightarrow> error + bool" where
  "delta_has_content choice =
     (case py_contains (lit ''delta'') choice of
        Inl e \<Rightarrow> Inl e
      | Inr False \<Rightarrow> Inr False
      | Inr True \<Rightarrow>
          (case py_getitem choice (lit ''delta'') of
             Inl e \<Rightarrow> Inl e
           | Inr delta \<Rightarrow> py_contains (lit ''content'') delta))"

text \<open>
  Lines 118 to 128, for one decoded object: the chunk it yields, if any, or the
  exception that a subscript or a membership test raises.
\<close>

definition event_chunk :: "pyval \<Rightarrow> error + pyval option" where
  "event_chunk json_line =
     (case py_getitem json_line (lit ''choices'') of
        Inl e \<Rightarrow> Inl e
      | Inr choices \<Rightarrow>
     (case py_getitem_0 choices of
        Inl e \<Rightarrow> Inl e
      | Inr choice \<Rightarrow>
     (case delta_has_content choice of
        Inl e \<Rightarrow> Inl e
      | Inr True \<Rightarrow>
          (case py_getitem choice (lit ''delta'') of
             Inl e \<Rightarrow> Inl e
           | Inr delta \<Rightarrow>
          (case py_getitem delta (lit ''content'') of
             Inl e \<Rightarrow> Inl e
           | Inr message \<Rightarrow>
          (case py_get choice (lit ''finish_reason'') of
             Inl e \<Rightarrow> Inl e
           | Inr finish_reason \<Rightarrow>
               Inr (Some (PDict [(lit ''message'', message),
                                 (lit ''finish_reason'', finish_reason)])))))
      | Inr False \<Rightarrow>
          (case py_contains (lit ''finish_reason'') choice of
             Inl e \<Rightarrow> Inl e
           | Inr True \<Rightarrow>
               (case py_getitem choice (lit ''finish_reason'') of
                  Inl e \<Rightarrow> Inl e
                | Inr finish_reason \<Rightarrow>
                    Inr (Some (PDict [(lit ''message'', PStr []),
                                      (lit ''finish_reason'', finish_reason)])))
           | Inr False \<Rightarrow> Inr None))))"

text \<open>
  The loop of lines 113 to 128 over the lines of the response: the chunks yielded, and
  the exception that ended the loop, if one did. \<^verbatim>\<open>break\<close> and the end of the lines
  both end it normally.
\<close>

fun decode_lines :: "(str \<Rightarrow> error + pyval) \<Rightarrow> str list \<Rightarrow> pyval list \<times> error option" where
  "decode_lines loads [] = ([], None)"
| "decode_lines loads (line # rest) =
     (if prefix (lit ''data: '') line then
        if strip line = lit ''data: [DONE]'' then ([], None)
        else
          (case loads (drop 6 line) of
             Inl e \<Rightarrow> ([], Some e)
           | Inr json_line \<Rightarrow>
               (case event_chunk json_line of
                  Inl e \<Rightarrow> ([], Some e)
                | Inr None \<Rightarrow> decode_lines loads rest
                | Inr (Some chunk) \<Rightarrow>
                    (chunk # fst (decode_lines loads rest), snd (decode_lines loads rest))))
      else decode_lines loads rest)"

text \<open>
  \<^verbatim>\<open>generate_stream\<close> (lines 75 to 128): the events of a whole run of the generator,
  and the exception that ended it, if one did. \<^verbatim>\<open>config.get("System Message")\<close> is
  \<^verbatim>\<open>None\<close> for a missing entry, and the default given for \<^verbatim>\<open>"Model"\<close> is a dict:
  neither has an attribute \<^verbatim>\<open>value\<close>. The status of the response is never read.
\<close>

definition generate_stream ::
  "OpenAIGenerator \<Rightarrow> world \<Rightarrow> (str \<rightharpoonup> str InputConfig) \<Rightarrow> str \<Rightarrow> str
     \<Rightarrow> conversation_item list \<Rightarrow> event list \<times> error option" where
  "generate_stream self w cfg query context conversation =
     (case cfg (lit ''System Message'') of
        None \<Rightarrow> ([], Some AttributeError)
      | Some system_message_entry \<Rightarrow>
     (case cfg (lit ''Model'') of
        None \<Rightarrow> ([], Some AttributeError)
      | Some model_entry \<Rightarrow>
     (case get_environment w cfg (lit ''API Key'') (lit ''OPENAI_API_KEY'')
             (lit ''No OpenAI API Key found'') of
        Inl e \<Rightarrow> ([], Some e)
      | Inr openai_key \<Rightarrow>
     (case get_environment w cfg (lit ''URL'') (lit ''OPENAI_BASE_URL'')
             (lit ''https://api.openai.com/v1'') of
        Inl e \<Rightarrow> ([], Some e)
      | Inr openai_url \<Rightarrow>
          (let system_message = cfg_value system_message_entry;
               model = cfg_value model_entry;
               messages = prepare_messages self query context conversation system_message;
               headers = [(lit ''Content-Type'', lit ''application/json''),
                          (lit ''Authorization'', lit ''Bearer '' @ openai_key)];
               data = PDict [(lit ''messages'', PList messages),
                             (lit ''model'', PStr model),
                             (lit ''stream'', PBool True),
                             (lit ''temperature'', PFloat (lit ''0.1'')),
                             (lit ''max_tokens'', PInt 300)];
               request = \<lparr>req_url = openai_url @ lit ''/chat/completions'',
                          req_json = data, req_headers = headers\<rparr>
           in case httpx_stream w request of
                Inl e \<Rightarrow> ([Post request], Some e)
              | Inr response \<Rightarrow>
                  (Post request # map Yield (fst (decode_lines (json_loads w) (lines response))),
                   snd (decode_lines (json_loads w) (lines response))))))))"

section \<open>Model discovery\<close>

text \<open>
  \<^verbatim>\<open>response.raise_for_status()\<close> of the requests library raises for the statuses from
  400 to 599, and for no other.
\<close>

definition raise_for_status :: "response \<Rightarrow> error + unit" where
  "raise_for_status r =
     (if 400 \<le> status_code r \<and> status_code r < 600
      then Inl (HTTPError (status_code r) (body r)) else Inr ())"

text \<open>
  The comprehension of lines 164 to 168 over the elements of \<^verbatim>\<open>data\<close>: the condition
  is evaluated first, then the element's \<^verbatim>\<open>id\<close> once more for the result.
\<close>

fun model_ids :: "pyval list \<Rightarrow> error + pyval list" where
  "model_ids [] = Inr []"
| "model_ids (model # rest) =
     (case py_getitem model (lit ''id'') of
        Inl e \<Rightarrow> Inl e
      | Inr model_id \<Rightarrow>
     (case py_contains (lit ''embedding'') model_id of
        Inl e \<Rightarrow> Inl e
      | Inr True \<Rightarrow> model_ids rest
      | Inr False \<Rightarrow>
          (case model_ids rest of
             Inl e \<Rightarrow> Inl e
           | Inr ids \<Rightarrow> Inr (model_id # ids))))"

text \<open>Lines 161 to 168: the body of the \<^verbatim>\<open>try\<close> once the token is known to be a string.\<close>

definition fetch_models :: "world \<Rightarrow> str \<Rightarrow> str \<Rightarrow> error + pyval list" where
  "fetch_models w token url =
     (let headers = [(lit ''Authorization'', lit ''Bearer '' @ token)] in
      case requests_get w (url @ lit ''/models'') headers of
        Inl e \<Rightarrow> Inl e
      | Inr response \<Rightarrow>
     (case raise_for_status response of
        Inl e \<Rightarrow> Inl e
      | Inr _ \<Rightarrow>
     (case json_loads w (body response) of
        Inl e \<Rightarrow> Inl e
      | Inr decoded \<Rightarrow>
     (case py_getitem decoded (lit ''data'') of
        Inl e \<Rightarrow> Inl e
      | Inr data \<Rightarrow>
     (case py_iter data of
        Inl e \<Rightarrow> Inl e
      | Inr models \<Rightarrow> model_ids models)))))"

text \<open>
  \<^verbatim>\<open>get_models\<close> (lines 152 to 171): the list returned and the events of the call.
  The handler catches every exception of the body.
\<close>

definition default_models :: "pyval list" where
  "default_models = [PStr (lit ''gpt-4o''), PStr (lit ''gpt-3.5-turbo'')]"

definition get_models ::
  "OpenAIGenerator \<Rightarrow> world \<Rightarrow> str option \<Rightarrow> str \<Rightarrow> pyval list \<times> event list" where
  "get_models self w token url =
     (case token of
        None \<Rightarrow> (default_models, [])
      | Some t \<Rightarrow>
          (let request = Get (url @ lit ''/models'') [(lit ''Authorization'', lit ''Bearer '' @ t)] in
           case fetch_models w t url of
             Inr models \<Rightarrow> (models, [request])
           | Inl e \<Rightarrow>
               (default_models, [request, Info (lit ''Failed to fetch OpenAI models: '') e])))"

section \<open>Construction\<close>

definition default_system_message :: str where
  "default_system_message =
     lit ''You are a professional and concise customer support assistant for an online service.''
     @ [10, 10]
     @ lit ''Your primary goals are:'' @ [10]
     @ lit ''1. Provide clear, direct, and helpful answers.'' @ [10]
     @ lit ''2. Avoid unnecessary details or filler phrases.'' @ [10]
     @ lit ''3. Use simple language, even for technical topics.'' @ [10]
     @ lit ''4. Give examples when it helps clarify the solution.'' @ [10]
     @ lit ''5. Never make up information. Say 'I don't know' if unsure.'' @ [10, 10]
     @ lit ''Examples:'' @ [10]
     @ lit ''User: How can I reset my password?'' @ [10]
     @ lit ''Assistant: Click on 'Forgot password' at login and follow the instructions.''
     @ [10, 10]
     @ lit ''User: I want to cancel my subscription.'' @ [10]
     @ lit ''Assistant: Go to 'Account Settings' '' @ [8594] @ lit '' 'Billing' '' @ [8594]
     @ lit '' click 'Cancel Subscription'.'' @ [10, 10]
     @ lit ''If the user is frustrated, stay calm and offer solutions politely.'' @ [10]
     @ lit ''Always stay on topic and respond in a maximum of 2 to 3 short sentences.''"

text \<open>
  \<^verbatim>\<open>__init__\<close> (lines 19 to 73): the object built, or the exception raised, and the
  events of the call. Python evaluates \<^verbatim>\<open>models[0]\<close> before it calls \<^verbatim>\<open>os.getenv\<close>,
  so an empty list raises whether or not \<^verbatim>\<open>OPENAI_MODEL\<close> is set. The character 10
  is the line feed and 8594 the arrow of the default system message.
\<close>

definition OpenAIGenerator_init :: "world \<Rightarrow> (error + OpenAIGenerator) \<times> event list" where
  "OpenAIGenerator_init w =
     (let self = \<lparr>name = lit ''OpenAI'',
                  description = lit ''Using OpenAI LLM models to generate answers to queries'',
                  context_window = 10000,
                  config = Generator_config\<rparr>;
          api_key = get_token w (lit ''OPENAI_API_KEY'');
          base_url = os_getenv w (lit ''OPENAI_BASE_URL'') (lit ''https://api.openai.com/v1'');
          (models, events) = get_models self w api_key base_url
      in case models of
           [] \<Rightarrow> (Inl IndexError, events)
         | first_model # _ \<Rightarrow>
             (let default_model =
                    (case environ w (lit ''OPENAI_MODEL'') of
                       None \<Rightarrow> first_model
                     | Some v \<Rightarrow> PStr v);
                  cfg = (config self)(lit ''Model'' \<mapsto>
                          \<lparr>cfg_type = lit ''dropdown'', cfg_value = default_model,
                           cfg_description = lit ''Select an OpenAI Model'',
                           cfg_values = models\<rparr>);
                  cfg = cfg(lit ''System Message'' \<mapsto>
                          \<lparr>cfg_type = lit ''textarea'',
                           cfg_value = PStr default_system_message,
                           cfg_description =
                             lit ''System prompt that defines the assistants behavior and tone.'',
                           cfg_values = []\<rparr>);
                  cfg = (if get_token w (lit ''OPENAI_API_KEY'') = None
                         then cfg(lit ''API Key'' \<mapsto>
                                \<lparr>cfg_type = lit ''password'', cfg_value = PStr [],
                                 cfg_description =
                                   lit ''You can set your OpenAI API Key here or set it as environment variable `OPENAI_API_KEY`'',
                                 cfg_values = []\<rparr>)
                         else cfg);
                  cfg = (if environ w (lit ''OPENAI_BASE_URL'') = None
                         then cfg(lit ''URL'' \<mapsto>
                                \<lparr>cfg_type = lit ''text'',
                                 cfg_value = PStr (lit ''https://api.openai.com/v1''),
                                 cfg_description =
                                   lit ''You can change the Base URL here if needed'',
                                 cfg_values = []\<rparr>)
                         else cfg)
              in (Inr (self\<lparr>config := cfg\<rparr>), events)))"

section \<open>Runs and examples\<close>

text \<open>The chunks a run yields, and the requests it posts, in order.\<close>

fun chunks_of :: "event list \<Rightarrow> pyval list" where
  "chunks_of [] = []"
| "chunks_of (Yield chunk # events) = chunk # chunks_of events"
| "chunks_of (event # events) = chunks_of events"

fun posts_of :: "event list \<Rightarrow> request list" where
  "posts_of [] = []"
| "posts_of (Post request # events) = request # posts_of events"
| "posts_of (event # events) = posts_of events"

text \<open>
  The world in which the provider answers the streaming request with a given status and
  given lines, and the one in which it answers the discovery request with a given status
  and body.
\<close>

definition with_stream :: "world \<Rightarrow> nat \<Rightarrow> str list \<Rightarrow> world" where
  "with_stream w status ls =
     w\<lparr>httpx_stream := \<lambda>request. Inr \<lparr>stream_status_code = status, lines = ls\<rparr>\<rparr>"

definition with_models :: "world \<Rightarrow> nat \<Rightarrow> str \<Rightarrow> world" where
  "with_models w status answer =
     w\<lparr>requests_get := \<lambda>url headers. Inr \<lparr>status_code = status, body = answer\<rparr>\<rparr>"

text \<open>
  Lines 82 to 89 raise nothing: the configuration has a system message and a model, and
  a key and a URL are resolved.
\<close>

definition resolved :: "world \<Rightarrow> (str \<rightharpoonup> str InputConfig) \<Rightarrow> bool" where
  "resolved w cfg =
     (cfg (lit ''System Message'') \<noteq> None \<and> cfg (lit ''Model'') \<noteq> None
      \<and> \<not> isl (get_environment w cfg (lit ''API Key'') (lit ''OPENAI_API_KEY'')
                  (lit ''No OpenAI API Key found''))
      \<and> \<not> isl (get_environment w cfg (lit ''URL'') (lit ''OPENAI_BASE_URL'')
                  (lit ''https://api.openai.com/v1'')))"

text \<open>
  Concrete inputs for the examples: a decoder that knows the texts used below (and
  refuses every other text), a world with no ambient value and no network, one with an
  ambient key and URL, a configuration with all four entries, and an object.
\<close>

definition example_loads :: "str \<Rightarrow> error + pyval" where
  \<open>example_loads s =
     (if s = lit ''{"choices":[{"delta":{"content":"Hi"}}]}'' then
        Inr (PDict [(lit ''choices'',
                     PList [PDict [(lit ''delta'', PDict [(lit ''content'', PStr (lit ''Hi''))])]])])
      else if s = lit ''{"choices":[{"finish_reason":"stop"}]}'' then
        Inr (PDict [(lit ''choices'', PList [PDict [(lit ''finish_reason'', PStr (lit ''stop''))]])])
      else if s = lit ''{"choices":[{"delta":{"role":"assistant"}}]}'' then
        Inr (PDict [(lit ''choices'',
                     PList [PDict [(lit ''delta'', PDict [(lit ''role'', PStr (lit ''assistant''))])]])])
      else if s = lit ''{"choices":[{"delta":null,"finish_reason":"stop"}]}'' then
        Inr (PDict [(lit ''choices'',
                     PList [PDict [(lit ''delta'', PNone),
                                   (lit ''finish_reason'', PStr (lit ''stop''))]])])
      else if s = lit ''{"data":[{"id":"text-embedding-3"},{"id":"gpt-4o"}]}'' then
        Inr (PDict [(lit ''data'',
                     PList [PDict [(lit ''id'', PStr (lit ''text-embedding-3''))],
                            PDict [(lit ''id'', PStr (lit ''gpt-4o''))]])])
      else if s = lit ''{"data":[{"id":"text-embedding-3"}]}'' then
        Inr (PDict [(lit ''data'', PList [PDict [(lit ''id'', PStr (lit ''text-embedding-3''))]])])
      else Inl JSONDecodeError)\<close>

definition example_world :: world where
  "example_world =
     \<lparr>environ = Map.empty,
      requests_get = (\<lambda>url headers. Inl TransportError),
      httpx_stream = (\<lambda>request. Inl TransportError),
      json_loads = example_loads\<rparr>"

definition ambient_world :: world where
  "ambient_world =
     example_world\<lparr>environ := [lit ''OPENAI_API_KEY'' \<mapsto> lit ''sk-ambient'',
                               lit ''OPENAI_BASE_URL'' \<mapsto> lit ''https://example.org/v1'']\<rparr>"

definition example_entry :: "str \<Rightarrow> str InputConfig" where
  "example_entry v =
     \<lparr>cfg_type = lit ''text'', cfg_value = v, cfg_description = [], cfg_values = []\<rparr>"

definition example_config :: "str \<rightharpoonup> str InputConfig" where
  "example_config =
     [lit ''Model'' \<mapsto> example_entry (lit ''gpt-4o''),
      lit ''System Message'' \<mapsto> example_entry (lit ''Be brief.''),
      lit ''API Key'' \<mapsto> example_entry (lit ''sk-test''),
      lit ''URL'' \<mapsto> example_entry (lit ''https://api.openai.com/v1'')]"

definition example_self :: OpenAIGenerator where
  "example_self =
     \<lparr>name = lit ''OpenAI'', description = [], context_window = 10000, config = Map.empty\<rparr>"

section \<open>Facts about the worlds and the loop\<close>

lemma with_stream_fields [simp]:
  "environ (with_stream w status ls) = environ w"
  "json_loads (with_stream w status ls) = json_loads w"
  "httpx_stream (with_stream w status ls) request
     = Inr \<lparr>stream_status_code = status, lines = ls\<rparr>"
  by (simp_all add: with_stream_def)

lemma with_models_fields [simp]:
  "environ (with_models w status answer) = environ w"
  "json_loads (with_models w status answer) = json_loads w"
  "requests_get (with_models w status answer) url headers
     = Inr \<lparr>status_code = status, body = answer\<rparr>"
  by (simp_all add: with_models_def)

lemma example_world_fields [simp]:
  "environ example_world = Map.empty"
  "json_loads example_world = example_loads"
  "requests_get example_world url headers = Inl TransportError"
  "httpx_stream example_world request = Inl TransportError"
  by (simp_all add: example_world_def)

lemma ambient_world_fields [simp]:
  "environ ambient_world = [lit ''OPENAI_API_KEY'' \<mapsto> lit ''sk-ambient'',
                            lit ''OPENAI_BASE_URL'' \<mapsto> lit ''https://example.org/v1'']"
  "json_loads ambient_world = example_loads"
  "requests_get ambient_world url headers = Inl TransportError"
  "httpx_stream ambient_world request = Inl TransportError"
  by (simp_all add: ambient_world_def example_world_def)

lemma get_environment_with_stream [simp]:
  "get_environment (with_stream w status ls) cfg option_name env error_msg
     = get_environment w cfg option_name env error_msg"
  by (simp add: get_environment_def split: option.splits)

lemma chunks_of_map_Yield [simp]: "chunks_of (map Yield cs) = cs"
  by (induction cs) simp_all

lemma posts_of_map_Yield [simp]: "posts_of (map Yield cs) = []"
  by (induction cs) simp_all

text \<open>
  Once the set-up has raised nothing, the chunks of a run and its end are those of the
  loop over the response's lines.
\<close>

lemma generate_stream_resolved:
  assumes "resolved w cfg"
  shows "chunks_of (fst (generate_stream self (with_stream w status ls) cfg query ctx conversation))
           = fst (decode_lines (json_loads w) ls)"
    and "snd (generate_stream self (with_stream w status ls) cfg query ctx conversation)
           = snd (decode_lines (json_loads w) ls)"
  using assms
  by (auto simp add: resolved_def generate_stream_def Let_def split: option.splits sum.splits)

lemma resolved_example: "resolved example_world example_config"
  by (simp add: resolved_def example_config_def get_environment_def)

lemma decode_lines_sentinel:
  assumes "prefix (lit ''data: '') line" and "strip line = lit ''data: [DONE]''"
  shows "decode_lines loads (before @ line # rest) = decode_lines loads before"
  using assms by (induction before) (simp_all split: sum.splits option.splits)

lemma decode_lines_ignored:
  assumes "\<not> prefix (lit ''data: '') line"
  shows "decode_lines loads (before @ line # rest) = decode_lines loads (before @ rest)"
  using assms by (induction before) (simp_all split: sum.splits option.splits)

text \<open>
  What lines 118 to 128 do with an object whose \<^verbatim>\<open>choices[0]\<close> is a dict, in terms of
  that dict's entries.
\<close>

lemma event_chunk_choice:
  assumes "map_of event (lit ''choices'') = Some (PList (PDict choice # others))"
  shows "event_chunk (PDict event) =
     (case (case map_of choice (lit ''delta'') of
              None \<Rightarrow> Inr False
            | Some delta \<Rightarrow> py_contains (lit ''content'') delta) of
        Inl e \<Rightarrow> Inl e
      | Inr True \<Rightarrow>
          (case py_getitem (the (map_of choice (lit ''delta''))) (lit ''content'') of
             Inl e \<Rightarrow> Inl e
           | Inr message \<Rightarrow>
               Inr (Some (PDict [(lit ''message'', message),
                                 (lit ''finish_reason'',
                                  case map_of choice (lit ''finish_reason'') of
                                    None \<Rightarrow> PNone | Some reason \<Rightarrow> reason)])))
      | Inr False \<Rightarrow>
          (case map_of choice (lit ''finish_reason'') of
             None \<Rightarrow> Inr None
           | Some reason \<Rightarrow>
               Inr (Some (PDict [(lit ''message'', PStr []), (lit ''finish_reason'', reason)]))))"
  using assms
  by (auto simp add: event_chunk_def delta_has_content_def
        split: option.splits sum.splits bool.splits)

lemma get_models_self:
  "get_models self w token url = get_models self' w token url"
  by (simp add: get_models_def)

lemma model_ids_strings:
  assumes "list_all2 (\<lambda>model model_id. \<exists>items. model = PDict items
              \<and> map_of items (lit ''id'') = Some (PStr model_id)) models ids"
  shows "model_ids models
           = Inr (map PStr (filter (\<lambda>model_id. \<not> sublist (lit ''embedding'') model_id) ids))"
  using assms by (induction rule: list_all2_induct) auto

section \<open>Properties of prompt assembly\<close>

lemma foldl_append_turns:
  "foldl (\<lambda>messages message. messages @ [f message]) acc conversation
     = acc @ map f conversation"
  by (induction conversation arbitrary: acc) simp_all

text \<open>
  C4. The list has two messages more than the conversation: the system message first,
  the turns of the conversation in their order, each with its role and content, and
  last the user message made from the query and the context.
\<close>

theorem prepare_messages_layout:
  "prepare_messages self query context conversation system_message
     = PDict [(lit ''role'', PStr (lit ''system'')), (lit ''content'', PStr system_message)]
       # map (\<lambda>message. PDict [(lit ''role'', PStr (type message)),
                                (lit ''content'', PStr (content message))]) conversation
       @ [PDict [(lit ''role'', PStr (lit ''user'')),
                 (lit ''content'',
                  PStr (lit ''Answer this query: '' @ [39] @ query @ [39]
                        @ lit '' with this provided context: '' @ context))]]
   \<and> length (prepare_messages self query context conversation system_message)
     = length conversation + 2
   \<and> hd (prepare_messages self query context conversation system_message)
     = PDict [(lit ''role'', PStr (lit ''system'')), (lit ''content'', PStr system_message)]
   \<and> take (length conversation)
        (tl (prepare_messages self query context conversation system_message))
     = map (\<lambda>message. PDict [(lit ''role'', PStr (type message)),
                              (lit ''content'', PStr (content message))]) conversation
   \<and> last (prepare_messages self query context conversation system_message)
     = PDict [(lit ''role'', PStr (lit ''user'')),
              (lit ''content'',
               PStr (lit ''Answer this query: '' @ [39] @ query @ [39]
                     @ lit '' with this provided context: '' @ context))]"
  unfolding prepare_messages_def Let_def foldl_append_turns by simp

text \<open>
  C8. \<^verbatim>\<open>prepare_messages\<close> reads nothing but its four arguments: whatever the object it
  is called on, equal arguments give equal lists. It makes no request and logs nothing:
  its result is the list alone, where the other methods return their events as well.
\<close>

theorem prepare_messages_pure:
  "prepare_messages self query context conversation system_message
     = prepare_messages self' query context conversation system_message"
  by (simp add: prepare_messages_def)

section \<open>Properties of stream generation\<close>

text \<open>
  C1. The code does not do what the claim says. The provider answers the streaming
  request with the status 401 and a JSON error body: the run posts its request, yields
  nothing and ends without any exception, where the claim has it end with an error that
  carries the status and the body. Lines 106 to 113 never read the status, while
  \<^verbatim>\<open>get_models\<close> does check it on line 163.
\<close>

theorem unauthorized_response_not_raised:
  \<open>generate_stream example_self
      (with_stream example_world 401 [lit ''{"error": {"message": "Incorrect API key provided"}}''])
      example_config (lit ''Hello'') (lit ''ctx'') []
    = ([Post \<lparr>req_url = lit ''https://api.openai.com/v1/chat/completions'',
              req_json = PDict [(lit ''messages'',
                                 PList (prepare_messages example_self (lit ''Hello'') (lit ''ctx'') []
                                          (lit ''Be brief.''))),
                                (lit ''model'', PStr (lit ''gpt-4o'')),
                                (lit ''stream'', PBool True),
                                (lit ''temperature'', PFloat (lit ''0.1'')),
                                (lit ''max_tokens'', PInt 300)],
              req_headers = [(lit ''Content-Type'', lit ''application/json''),
                             (lit ''Authorization'', lit ''Bearer sk-test'')]\<rparr>],
       None)\<close>
  by (simp add: generate_stream_def Let_def example_config_def example_entry_def
        get_environment_def)

text \<open>
  C2, as the spec states it, fails: the stripped form of a line that starts with a space
  is \<^verbatim>\<open>data: [DONE]\<close>, yet the line has no \<^verbatim>\<open>data: \<close> prefix, is ignored, and the
  chunk of the next line is yielded.
\<close>

theorem leading_space_done_not_sentinel:
  \<open>strip (lit '' data: [DONE]'') = lit ''data: [DONE]''
   \<and> chunks_of (fst (generate_stream example_self
        (with_stream example_world 200
           [lit '' data: [DONE]'', lit ''data: {"choices":[{"delta":{"content":"Hi"}}]}''])
        example_config (lit ''Hello'') (lit ''ctx'') []))
     = [PDict [(lit ''message'', PStr (lit ''Hi'')), (lit ''finish_reason'', PNone)]]\<close>
  by (simp add: generate_stream_resolved resolved_example strip_def isspace_def
        example_loads_def event_chunk_def delta_has_content_def)

text \<open>
  C2, amended. A line that starts with \<^verbatim>\<open>data: \<close> and whose stripped form is
  \<^verbatim>\<open>data: [DONE]\<close> ends the sequence: the run is the run on the lines before it, so the
  line yields no chunk and no later line is read. A line without the prefix \<^verbatim>\<open>data: \<close>
  is ignored: the run is the run without it. When the set-up raises nothing and the
  decoder reads the first payload as the object shown, the stream of that line followed
  by \<^verbatim>\<open>data: [DONE]\<close> yields the one chunk with message \<^verbatim>\<open>Hi\<close> and finish reason
  \<^verbatim>\<open>None\<close>, and ends normally.
\<close>

theorem done_sentinel_ends_stream:
  \<open>(prefix (lit ''data: '') line \<and> strip line = lit ''data: [DONE]'' \<longrightarrow>
      generate_stream self (with_stream w status (before @ line # rest)) cfg query ctx conversation
      = generate_stream self (with_stream w status before) cfg query ctx conversation)
   \<and> (\<not> prefix (lit ''data: '') other \<longrightarrow>
      generate_stream self (with_stream w status (before' @ other # rest')) cfg query ctx conversation
      = generate_stream self (with_stream w status (before' @ rest')) cfg query ctx conversation)
   \<and> (resolved w cfg
       \<and> json_loads w (lit ''{"choices":[{"delta":{"content":"Hi"}}]}'')
           = Inr (PDict [(lit ''choices'',
                          PList [PDict [(lit ''delta'', PDict [(lit ''content'', PStr (lit ''Hi''))])]])]) \<longrightarrow>
      chunks_of (fst (generate_stream self
          (with_stream w status [lit ''data: {"choices":[{"delta":{"content":"Hi"}}]}'', lit ''data: [DONE]''])
          cfg query ctx conversation))
        = [PDict [(lit ''message'', PStr (lit ''Hi'')), (lit ''finish_reason'', PNone)]]
      \<and> snd (generate_stream self
          (with_stream w status [lit ''data: {"choices":[{"delta":{"content":"Hi"}}]}'', lit ''data: [DONE]''])
          cfg query ctx conversation) = None)\<close>
proof (intro conjI impI)
  assume "prefix (lit ''data: '') line \<and> strip line = lit ''data: [DONE]''"
  then show "generate_stream self (with_stream w status (before @ line # rest)) cfg query ctx conversation
      = generate_stream self (with_stream w status before) cfg query ctx conversation"
    by (simp add: generate_stream_def Let_def decode_lines_sentinel
          split: option.splits sum.splits)
next
  assume "\<not> prefix (lit ''data: '') other"
  then show "generate_stream self (with_stream w status (before' @ other # rest')) cfg query ctx conversation
      = generate_stream self (with_stream w status (before' @ rest')) cfg query ctx conversation"
    by (simp add: generate_stream_def Let_def decode_lines_ignored
          split: option.splits sum.splits)
next
  let ?hi = \<open>lit ''data: {"choices":[{"delta":{"content":"Hi"}}]}''\<close>
  assume a: \<open>resolved w cfg
       \<and> json_loads w (lit ''{"choices":[{"delta":{"content":"Hi"}}]}'')
           = Inr (PDict [(lit ''choices'',
                          PList [PDict [(lit ''delta'', PDict [(lit ''content'', PStr (lit ''Hi''))])]])])\<close>
  have d: "decode_lines (json_loads w) [?hi, lit ''data: [DONE]'']
             = ([PDict [(lit ''message'', PStr (lit ''Hi'')), (lit ''finish_reason'', PNone)]], None)"
    using a by (simp add: strip_def isspace_def event_chunk_def delta_has_content_def)
  show "chunks_of (fst (generate_stream self (with_stream w status [?hi, lit ''data: [DONE]''])
          cfg query ctx conversation))
        = [PDict [(lit ''message'', PStr (lit ''Hi'')), (lit ''finish_reason'', PNone)]]"
    using a by (simp only: generate_stream_resolved(1) d fst_conv)
  show "snd (generate_stream self (with_stream w status [?hi, lit ''data: [DONE]''])
          cfg query ctx conversation) = None"
    using a by (simp only: generate_stream_resolved(2) d snd_conv)
qed

text \<open>
  The three parts at concrete inputs: a chunk, then \<^verbatim>\<open>data: [DONE]\<close> followed by two
  spaces, then a line that is never read; a keep-alive comment before the sentinel; and
  the example of the spec.
\<close>

theorem done_sentinel_ends_stream_witness:
  \<open>generate_stream example_self
      (with_stream example_world 200
         ([lit ''data: {"choices":[{"delta":{"content":"Hi"}}]}''] @ lit ''data: [DONE]  ''
          # [lit ''data: {"choices":[{"finish_reason":"stop"}]}'']))
      example_config (lit ''Hello'') (lit ''ctx'') []
    = generate_stream example_self
      (with_stream example_world 200 [lit ''data: {"choices":[{"delta":{"content":"Hi"}}]}''])
      example_config (lit ''Hello'') (lit ''ctx'') []
   \<and> generate_stream example_self
      (with_stream example_world 200 ([] @ lit '': keep-alive'' # [lit ''data: [DONE]'']))
      example_config (lit ''Hello'') (lit ''ctx'') []
    = generate_stream example_self
      (with_stream example_world 200 ([] @ [lit ''data: [DONE]'']))
      example_config (lit ''Hello'') (lit ''ctx'') []
   \<and> chunks_of (fst (generate_stream example_self
        (with_stream example_world 200
           [lit ''data: {"choices":[{"delta":{"content":"Hi"}}]}'', lit ''data: [DONE]''])
        example_config (lit ''Hello'') (lit ''ctx'') []))
     = [PDict [(lit ''message'', PStr (lit ''Hi'')), (lit ''finish_reason'', PNone)]]
   \<and> snd (generate_stream example_self
        (with_stream example_world 200
           [lit ''data: {"choices":[{"delta":{"content":"Hi"}}]}'', lit ''data: [DONE]''])
        example_config (lit ''Hello'') (lit ''ctx'') []) = None\<close>
proof -
  have sentinel: "prefix (lit ''data: '') (lit ''data: [DONE]  '')
                  \<and> strip (lit ''data: [DONE]  '') = lit ''data: [DONE]''"
    by (simp add: strip_def isspace_def)
  have other: "\<not> prefix (lit ''data: '') (lit '': keep-alive'')"
    by simp
  have loads: \<open>resolved example_world example_config
       \<and> json_loads example_world (lit ''{"choices":[{"delta":{"content":"Hi"}}]}'')
           = Inr (PDict [(lit ''choices'',
                          PList [PDict [(lit ''delta'', PDict [(lit ''content'', PStr (lit ''Hi''))])]])])\<close>
    by (simp add: resolved_example example_loads_def)
  show ?thesis
    using done_sentinel_ends_stream [where line = "lit ''data: [DONE]  ''"
        and self = example_self and w = example_world and status = 200
        and before = \<open>[lit ''data: {"choices":[{"delta":{"content":"Hi"}}]}'']\<close>
        and rest = \<open>[lit ''data: {"choices":[{"finish_reason":"stop"}]}'']\<close>
        and cfg = example_config and query = "lit ''Hello''" and ctx = "lit ''ctx''"
        and conversation = "[]" and other = "lit '': keep-alive''" and before' = "[]"
        and rest' = "[lit ''data: [DONE]'']"]
      sentinel other loads
    by blast
qed

text \<open>
  C3, as the spec states it, fails: an object whose \<^verbatim>\<open>choices[0]\<close> has a null
  \<^verbatim>\<open>delta\<close> and the finish reason \<^verbatim>\<open>stop\<close> has no content field and has a finish
  reason, yet no chunk is yielded for it: the membership test on \<^verbatim>\<open>None\<close> raises a
  \<^verbatim>\<open>TypeError\<close>, which ends the run.
\<close>

theorem null_delta_raises:
  \<open>chunks_of (fst (generate_stream example_self
      (with_stream example_world 200 [lit ''data: {"choices":[{"delta":null,"finish_reason":"stop"}]}''])
      example_config (lit ''Hello'') (lit ''ctx'') [])) = []
   \<and> snd (generate_stream example_self
      (with_stream example_world 200 [lit ''data: {"choices":[{"delta":null,"finish_reason":"stop"}]}''])
      example_config (lit ''Hello'') (lit ''ctx'') []) = Some TypeError\<close>
  by (simp add: generate_stream_resolved resolved_example strip_def isspace_def
        example_loads_def event_chunk_def delta_has_content_def)

text \<open>
  C3, amended. Take a \<^verbatim>\<open>data: \<close> line that is not the sentinel and whose payload
  decodes to an object whose \<^verbatim>\<open>choices[0]\<close> is an object. If its \<^verbatim>\<open>delta\<close> is an
  object with a \<^verbatim>\<open>content\<close> field, the loop yields that content with the finish reason
  (\<^verbatim>\<open>None\<close> when absent) and goes on. If it has no \<^verbatim>\<open>delta\<close>, or a \<^verbatim>\<open>delta\<close> object
  without \<^verbatim>\<open>content\<close>, and has a finish reason, the loop yields the empty text with
  that reason and goes on. If it has neither, the loop yields nothing for the line and
  goes on. The three cases exclude each other and cover every \<^verbatim>\<open>delta\<close> that is absent
  or an object. The chunks of \<^verbatim>\<open>generate_stream\<close> are the chunks of this loop over the
  lines of the response.
\<close>

theorem event_outcomes:
  assumes "prefix (lit ''data: '') line"
      and "strip line \<noteq> lit ''data: [DONE]''"
      and "loads (drop 6 line) = Inr (PDict event)"
      and "map_of event (lit ''choices'') = Some (PList (PDict choice # others))"
  shows
    "(map_of choice (lit ''delta'') = Some (PDict delta)
        \<and> map_of delta (lit ''content'') = Some message \<longrightarrow>
      decode_lines loads (line # rest)
        = (PDict [(lit ''message'', message),
                  (lit ''finish_reason'',
                   case map_of choice (lit ''finish_reason'') of
                     None \<Rightarrow> PNone | Some reason \<Rightarrow> reason)]
             # fst (decode_lines loads rest),
           snd (decode_lines loads rest)))
   \<and> ((map_of choice (lit ''delta'') = None
         \<or> map_of choice (lit ''delta'') = Some (PDict delta)
            \<and> map_of delta (lit ''content'') = None)
        \<and> map_of choice (lit ''finish_reason'') = Some finish_reason \<longrightarrow>
      decode_lines loads (line # rest)
        = (PDict [(lit ''message'', PStr []), (lit ''finish_reason'', finish_reason)]
             # fst (decode_lines loads rest),
           snd (decode_lines loads rest)))
   \<and> ((map_of choice (lit ''delta'') = None
         \<or> map_of choice (lit ''delta'') = Some (PDict delta)
            \<and> map_of delta (lit ''content'') = None)
        \<and> map_of choice (lit ''finish_reason'') = None \<longrightarrow>
      decode_lines loads (line # rest) = decode_lines loads rest)"
  using assms by (auto simp add: event_chunk_choice)

text \<open>
  One line for each case: a content delta, the spec's line with only a finish reason,
  and a delta that carries a role alone.
\<close>

theorem event_outcomes_witness:
  \<open>decode_lines example_loads [lit ''data: {"choices":[{"delta":{"content":"Hi"}}]}'']
     = ([PDict [(lit ''message'', PStr (lit ''Hi'')), (lit ''finish_reason'', PNone)]], None)
   \<and> decode_lines example_loads [lit ''data: {"choices":[{"finish_reason":"stop"}]}'']
     = ([PDict [(lit ''message'', PStr []), (lit ''finish_reason'', PStr (lit ''stop''))]], None)
   \<and> decode_lines example_loads [lit ''data: {"choices":[{"delta":{"role":"assistant"}}]}'']
     = ([], None)\<close>
proof -
  have 1: \<open>decode_lines example_loads [lit ''data: {"choices":[{"delta":{"content":"Hi"}}]}'']
     = ([PDict [(lit ''message'', PStr (lit ''Hi'')), (lit ''finish_reason'', PNone)]], None)\<close>
    using event_outcomes [where line = \<open>lit ''data: {"choices":[{"delta":{"content":"Hi"}}]}''\<close>
        and loads = example_loads
        and event = "[(lit ''choices'', PList [PDict [(lit ''delta'', PDict [(lit ''content'', PStr (lit ''Hi''))])]])]"
        and choice = "[(lit ''delta'', PDict [(lit ''content'', PStr (lit ''Hi''))])]"
        and others = "[]" and delta = "[(lit ''content'', PStr (lit ''Hi''))]"
        and message = "PStr (lit ''Hi'')" and rest = "[]"]
    by (simp add: strip_def isspace_def example_loads_def)
  have 2: \<open>decode_lines example_loads [lit ''data: {"choices":[{"finish_reason":"stop"}]}'']
     = ([PDict [(lit ''message'', PStr []), (lit ''finish_reason'', PStr (lit ''stop''))]], None)\<close>
    using event_outcomes [where line = \<open>lit ''data: {"choices":[{"finish_reason":"stop"}]}''\<close>
        and loads = example_loads
        and event = "[(lit ''choices'', PList [PDict [(lit ''finish_reason'', PStr (lit ''stop''))]])]"
        and choice = "[(lit ''finish_reason'', PStr (lit ''stop''))]"
        and others = "[]" and rest = "[]" and finish_reason = "PStr (lit ''stop'')"]
    by (simp add: strip_def isspace_def example_loads_def)
  have 3: \<open>decode_lines example_loads [lit ''data: {"choices":[{"delta":{"role":"assistant"}}]}'']
     = ([], None)\<close>
    using event_outcomes [where line = \<open>lit ''data: {"choices":[{"delta":{"role":"assistant"}}]}''\<close>
        and loads = example_loads
        and event = "[(lit ''choices'', PList [PDict [(lit ''delta'', PDict [(lit ''role'', PStr (lit ''assistant''))])]])]"
        and choice = "[(lit ''delta'', PDict [(lit ''role'', PStr (lit ''assistant''))])]"
        and others = "[]" and delta = "[(lit ''role'', PStr (lit ''assistant''))]"
        and rest = "[]"]
    by (simp add: strip_def isspace_def example_loads_def)
  from 1 2 3 show ?thesis by simp
qed

text \<open>
  C5. With a system message and a model in the configuration, no \<^verbatim>\<open>API Key\<close> entry
  and no ambient \<^verbatim>\<open>OPENAI_API_KEY\<close>, the run ends with a \<^verbatim>\<open>MissingCredentialError\<close>
  and has no event: no request was posted. When the configuration has the entries
  \<^verbatim>\<open>API Key\<close> and \<^verbatim>\<open>URL\<close>, the one request posted goes to the configured URL with the
  configured key, whatever the ambient values are; for each option alone, an entry of
  the configuration is the value resolved when an ambient value exists as well.
\<close>

theorem missing_key_fails_before_request:
  "(cfg (lit ''System Message'') \<noteq> None \<and> cfg (lit ''Model'') \<noteq> None
      \<and> cfg (lit ''API Key'') = None \<and> environ w (lit ''OPENAI_API_KEY'') = None \<longrightarrow>
     generate_stream self w cfg query ctx conversation
       = ([], Some (MissingCredentialError (lit ''No OpenAI API Key found''))))
   \<and> (cfg (lit ''System Message'') \<noteq> None \<and> cfg (lit ''Model'') \<noteq> None
      \<and> cfg (lit ''API Key'') = Some key_entry \<and> cfg (lit ''URL'') = Some url_entry \<longrightarrow>
     map req_url (posts_of (fst (generate_stream self w cfg query ctx conversation)))
       = [cfg_value url_entry @ lit ''/chat/completions'']
     \<and> map req_headers (posts_of (fst (generate_stream self w cfg query ctx conversation)))
       = [[(lit ''Content-Type'', lit ''application/json''),
           (lit ''Authorization'', lit ''Bearer '' @ cfg_value key_entry)]])
   \<and> (cfg option_name = Some entry \<and> environ w env = Some ambient \<longrightarrow>
     get_environment w cfg option_name env error_msg = Inr (cfg_value entry))"
  by (auto simp add: generate_stream_def get_environment_def Let_def
        split: option.splits sum.splits)

text \<open>
  A configuration without a key in a world without ambient values, and the full
  configuration in a world whose ambient key and URL differ from the configured ones.
\<close>

theorem missing_key_fails_before_request_witness:
  "generate_stream example_self example_world
      [lit ''Model'' \<mapsto> example_entry (lit ''gpt-4o''),
       lit ''System Message'' \<mapsto> example_entry (lit ''Be brief.'')]
      (lit ''Hello'') (lit ''ctx'') []
     = ([], Some (MissingCredentialError (lit ''No OpenAI API Key found'')))
   \<and> map req_url (posts_of (fst (generate_stream example_self ambient_world example_config
        (lit ''Hello'') (lit ''ctx'') [])))
     = [lit ''https://api.openai.com/v1/chat/completions'']
   \<and> map req_headers (posts_of (fst (generate_stream example_self ambient_world example_config
        (lit ''Hello'') (lit ''ctx'') [])))
     = [[(lit ''Content-Type'', lit ''application/json''),
         (lit ''Authorization'', lit ''Bearer sk-test'')]]
   \<and> get_environment ambient_world example_config (lit ''API Key'') (lit ''OPENAI_API_KEY'')
       (lit ''No OpenAI API Key found'') = Inr (lit ''sk-test'')"
  using missing_key_fails_before_request [where cfg =
      "[lit ''Model'' \<mapsto> example_entry (lit ''gpt-4o''),
        lit ''System Message'' \<mapsto> example_entry (lit ''Be brief.'')]"
      and w = example_world and self = example_self and query = "lit ''Hello''"
      and ctx = "lit ''ctx''" and conversation = "[]"]
    missing_key_fails_before_request [where cfg = example_config and w = ambient_world
      and key_entry = "example_entry (lit ''sk-test'')"
      and url_entry = "example_entry (lit ''https://api.openai.com/v1'')"
      and self = example_self and query = "lit ''Hello''" and ctx = "lit ''ctx''"
      and conversation = "[]" and option_name = "lit ''API Key''"
      and entry = "example_entry (lit ''sk-test'')" and env = "lit ''OPENAI_API_KEY''"
      and ambient = "lit ''sk-ambient''" and error_msg = "lit ''No OpenAI API Key found''"]
  by (simp add: example_config_def example_entry_def)

section \<open>Properties of model discovery\<close>

text \<open>
  C6, as the spec states it, fails: the provider answers the discovery request with the
  status 300 and a well-formed body. \<^verbatim>\<open>raise_for_status\<close> raises for the statuses 400
  to 599 only, so the body is decoded and its filtered identifiers are returned, not the
  fallback list.
\<close>

theorem multiple_choices_not_fallback:
  \<open>get_models example_self
      (with_models example_world 300 (lit ''{"data":[{"id":"text-embedding-3"},{"id":"gpt-4o"}]}''))
      (Some (lit ''sk-test'')) (lit ''https://api.openai.com/v1'')
    = ([PStr (lit ''gpt-4o'')],
       [Get (lit ''https://api.openai.com/v1/models'')
            [(lit ''Authorization'', lit ''Bearer sk-test'')]])\<close>
  by (simp add: get_models_def fetch_models_def raise_for_status_def Let_def example_loads_def
        sublist_code)

text \<open>
  C6, amended. \<^verbatim>\<open>get_models\<close> always returns a list. Without a credential it returns
  the two fallback names and has no event: no request is made. With a credential it
  makes the one request; when the request fails, when the status is from 400 to 599, when
  the body is not JSON, and on any other exception of the fetch, it logs the exception
  and returns the fallback list. In every case the result is the fallback list or the
  list the fetch returned; when the fetch returns a list, that list is the result and
  nothing is logged. A response with any status outside 400 to 599, the status 300 for
  one, whose body decodes to an object with a \<^verbatim>\<open>data\<close> list of objects with string
  identifiers is handled as a successful one: the identifiers that do not contain
  \<^verbatim>\<open>embedding\<close> are returned in the order of the response.
\<close>

theorem get_models_falls_back:
  "get_models self w None url = (default_models, [])
   \<and> (requests_get w (url @ lit ''/models'') [(lit ''Authorization'', lit ''Bearer '' @ token)]
          = Inl e \<longrightarrow>
        get_models self w (Some token) url
          = (default_models,
             [Get (url @ lit ''/models'') [(lit ''Authorization'', lit ''Bearer '' @ token)],
              Info (lit ''Failed to fetch OpenAI models: '') e]))
   \<and> (requests_get w (url @ lit ''/models'') [(lit ''Authorization'', lit ''Bearer '' @ token)]
          = Inr r \<and> 400 \<le> status_code r \<and> status_code r < 600 \<longrightarrow>
        get_models self w (Some token) url
          = (default_models,
             [Get (url @ lit ''/models'') [(lit ''Authorization'', lit ''Bearer '' @ token)],
              Info (lit ''Failed to fetch OpenAI models: '')
                (HTTPError (status_code r) (body r))]))
   \<and> (requests_get w (url @ lit ''/models'') [(lit ''Authorization'', lit ''Bearer '' @ token)]
          = Inr r \<and> \<not> (400 \<le> status_code r \<and> status_code r < 600)
        \<and> json_loads w (body r) = Inl e \<longrightarrow>
        get_models self w (Some token) url
          = (default_models,
             [Get (url @ lit ''/models'') [(lit ''Authorization'', lit ''Bearer '' @ token)],
              Info (lit ''Failed to fetch OpenAI models: '') e]))
   \<and> (fetch_models w token url = Inl e \<longrightarrow>
        get_models self w (Some token) url
          = (default_models,
             [Get (url @ lit ''/models'') [(lit ''Authorization'', lit ''Bearer '' @ token)],
              Info (lit ''Failed to fetch OpenAI models: '') e]))
   \<and> (fst (get_models self w (Some token) url) = default_models
        \<or> fetch_models w token url = Inr (fst (get_models self w (Some token) url)))
   \<and> (fetch_models w token url = Inr fetched \<longrightarrow>
        get_models self w (Some token) url
          = (fetched,
             [Get (url @ lit ''/models'') [(lit ''Authorization'', lit ''Bearer '' @ token)]]))
   \<and> (requests_get w (url @ lit ''/models'') [(lit ''Authorization'', lit ''Bearer '' @ token)]
          = Inr r \<and> \<not> (400 \<le> status_code r \<and> status_code r < 600)
        \<and> json_loads w (body r) = Inr (PDict decoded)
        \<and> map_of decoded (lit ''data'') = Some (PList models)
        \<and> list_all2 (\<lambda>model model_id. \<exists>items. model = PDict items
              \<and> map_of items (lit ''id'') = Some (PStr model_id)) models ids \<longrightarrow>
        get_models self w (Some token) url
          = (map PStr (filter (\<lambda>model_id. \<not> sublist (lit ''embedding'') model_id) ids),
             [Get (url @ lit ''/models'') [(lit ''Authorization'', lit ''Bearer '' @ token)]]))"
  by (auto simp add: get_models_def fetch_models_def raise_for_status_def Let_def
        model_ids_strings split: sum.splits)

text \<open>
  No credential; a request that cannot be made; the status 401; a body that is not
  JSON; and the status 204 with a body that decodes.
\<close>

theorem get_models_falls_back_witness:
  \<open>get_models example_self example_world None (lit ''https://api.openai.com/v1'')
     = (default_models, [])
   \<and> get_models example_self example_world (Some (lit ''sk-test'')) (lit ''https://api.openai.com/v1'')
     = (default_models,
        [Get (lit ''https://api.openai.com/v1/models'') [(lit ''Authorization'', lit ''Bearer sk-test'')],
         Info (lit ''Failed to fetch OpenAI models: '') TransportError])
   \<and> get_models example_self (with_models example_world 401 (lit ''{"error": "invalid_api_key"}''))
        (Some (lit ''sk-test'')) (lit ''https://api.openai.com/v1'')
     = (default_models,
        [Get (lit ''https://api.openai.com/v1/models'') [(lit ''Authorization'', lit ''Bearer sk-test'')],
         Info (lit ''Failed to fetch OpenAI models: '')
           (HTTPError 401 (lit ''{"error": "invalid_api_key"}''))])
   \<and> get_models example_self (with_models example_world 200 (lit ''<html>''))
        (Some (lit ''sk-test'')) (lit ''https://api.openai.com/v1'')
     = (default_models,
        [Get (lit ''https://api.openai.com/v1/models'') [(lit ''Authorization'', lit ''Bearer sk-test'')],
         Info (lit ''Failed to fetch OpenAI models: '') JSONDecodeError])
   \<and> get_models example_self
        (with_models example_world 204 (lit ''{"data":[{"id":"text-embedding-3"},{"id":"gpt-4o"}]}''))
        (Some (lit ''sk-test'')) (lit ''https://api.openai.com/v1'')
     = ([PStr (lit ''gpt-4o'')],
        [Get (lit ''https://api.openai.com/v1/models'') [(lit ''Authorization'', lit ''Bearer sk-test'')]])
   \<and> fetch_models
        (with_models example_world 204 (lit ''{"data":[{"id":"text-embedding-3"},{"id":"gpt-4o"}]}''))
        (lit ''sk-test'') (lit ''https://api.openai.com/v1'')
     = Inr [PStr (lit ''gpt-4o'')]\<close>
  using get_models_falls_back [where self = example_self and w = example_world
      and url = "lit ''https://api.openai.com/v1''" and token = "lit ''sk-test''"
      and e = TransportError]
    get_models_falls_back [where self = example_self
      and w = \<open>with_models example_world 401 (lit ''{"error": "invalid_api_key"}'')\<close>
      and url = "lit ''https://api.openai.com/v1''" and token = "lit ''sk-test''"
      and r = \<open>\<lparr>status_code = 401, body = lit ''{"error": "invalid_api_key"}''\<rparr>\<close>]
    get_models_falls_back [where self = example_self
      and w = \<open>with_models example_world 200 (lit ''<html>'')\<close>
      and url = "lit ''https://api.openai.com/v1''" and token = "lit ''sk-test''"
      and e = JSONDecodeError
      and r = \<open>\<lparr>status_code = 200, body = lit ''<html>''\<rparr>\<close>]
    get_models_falls_back [where self = example_self
      and w = \<open>with_models example_world 204
                 (lit ''{"data":[{"id":"text-embedding-3"},{"id":"gpt-4o"}]}'')\<close>
      and url = "lit ''https://api.openai.com/v1''" and token = "lit ''sk-test''"
      and r = \<open>\<lparr>status_code = 204,
                 body = lit ''{"data":[{"id":"text-embedding-3"},{"id":"gpt-4o"}]}''\<rparr>\<close>
      and decoded = "[(lit ''data'', PList [PDict [(lit ''id'', PStr (lit ''text-embedding-3''))],
                                            PDict [(lit ''id'', PStr (lit ''gpt-4o''))]])]"
      and models = "[PDict [(lit ''id'', PStr (lit ''text-embedding-3''))],
                     PDict [(lit ''id'', PStr (lit ''gpt-4o''))]]"
      and ids = "[lit ''text-embedding-3'', lit ''gpt-4o'']"
      and fetched = "[PStr (lit ''gpt-4o'')]"]
  by (simp add: example_loads_def sublist_code fetch_models_def raise_for_status_def Let_def)

text \<open>
  C7. When the request is answered, the status raises nothing (every status from 200 to
  299 is such a status), the body decodes to an object whose \<^verbatim>\<open>data\<close> is a list of
  objects with string identifiers, \<^verbatim>\<open>get_models\<close> returns the identifiers that do not
  contain \<^verbatim>\<open>embedding\<close>, in the order of the response, and logs nothing.
\<close>

theorem get_models_filters_embedding:
  assumes "requests_get w (url @ lit ''/models'') [(lit ''Authorization'', lit ''Bearer '' @ token)]
             = Inr r"
      and "\<not> (400 \<le> status_code r \<and> status_code r < 600)"
      and "json_loads w (body r) = Inr (PDict decoded)"
      and "map_of decoded (lit ''data'') = Some (PList models)"
      and "list_all2 (\<lambda>model model_id. \<exists>items. model = PDict items
              \<and> map_of items (lit ''id'') = Some (PStr model_id)) models ids"
  shows "get_models self w (Some token) url
           = (map PStr (filter (\<lambda>model_id. \<not> sublist (lit ''embedding'') model_id) ids),
              [Get (url @ lit ''/models'') [(lit ''Authorization'', lit ''Bearer '' @ token)]])"
  using assms(1-4) model_ids_strings [OF assms(5)]
  by (simp add: get_models_def fetch_models_def raise_for_status_def Let_def)

text \<open>The example of the spec: the embedding model is left out, \<^verbatim>\<open>gpt-4o\<close> is kept.\<close>

theorem get_models_filters_embedding_witness:
  \<open>get_models example_self
      (with_models example_world 200 (lit ''{"data":[{"id":"text-embedding-3"},{"id":"gpt-4o"}]}''))
      (Some (lit ''sk-test'')) (lit ''https://api.openai.com/v1'')
    = ([PStr (lit ''gpt-4o'')],
       [Get (lit ''https://api.openai.com/v1/models'')
            [(lit ''Authorization'', lit ''Bearer sk-test'')]])\<close>
proof -
  let ?w = \<open>with_models example_world 200 (lit ''{"data":[{"id":"text-embedding-3"},{"id":"gpt-4o"}]}'')\<close>
  let ?r = \<open>\<lparr>status_code = 200, body = lit ''{"data":[{"id":"text-embedding-3"},{"id":"gpt-4o"}]}''\<rparr>\<close>
  let ?models = "[PDict [(lit ''id'', PStr (lit ''text-embedding-3''))],
                  PDict [(lit ''id'', PStr (lit ''gpt-4o''))]]"
  have 1: "requests_get ?w (lit ''https://api.openai.com/v1'' @ lit ''/models'')
             [(lit ''Authorization'', lit ''Bearer '' @ lit ''sk-test'')] = Inr ?r"
    by simp
  have 2: "\<not> (400 \<le> status_code ?r \<and> status_code ?r < 600)"
    by simp
  have 3: "json_loads ?w (body ?r) = Inr (PDict [(lit ''data'', PList ?models)])"
    by (simp add: example_loads_def)
  have 4: "map_of [(lit ''data'', PList ?models)] (lit ''data'') = Some (PList ?models)"
    by simp
  have 5: "list_all2 (\<lambda>model model_id. \<exists>items. model = PDict items
              \<and> map_of items (lit ''id'') = Some (PStr model_id))
             ?models [lit ''text-embedding-3'', lit ''gpt-4o'']"
    by simp
  show ?thesis
    using get_models_filters_embedding [OF 1 2 3 4 5, where self = example_self]
    by (simp add: sublist_code)
qed

section \<open>Properties of construction\<close>

text \<open>
  C9. When the constructor returns an object, its configuration has the entry
  \<^verbatim>\<open>API Key\<close> exactly when no ambient \<^verbatim>\<open>OPENAI_API_KEY\<close> was found, and the entry
  \<^verbatim>\<open>URL\<close> exactly when no ambient \<^verbatim>\<open>OPENAI_BASE_URL\<close> was set.
\<close>

theorem config_slots_follow_ambient:
  assumes "fst (OpenAIGenerator_init w) = Inr self"
  shows "(config self (lit ''API Key'') \<noteq> None) = (get_token w (lit ''OPENAI_API_KEY'') = None)
       \<and> (config self (lit ''URL'') \<noteq> None) = (environ w (lit ''OPENAI_BASE_URL'') = None)"
  using assms
  by (auto simp add: OpenAIGenerator_init_def Generator_config_def Let_def
        split: prod.splits list.splits if_splits)

text \<open>
  Both directions: without ambient values the object has both entries, with both ambient
  values it has neither.
\<close>

theorem config_slots_follow_ambient_witness:
  "\<not> isl (fst (OpenAIGenerator_init example_world))
   \<and> config (projr (fst (OpenAIGenerator_init example_world))) (lit ''API Key'') \<noteq> None
   \<and> config (projr (fst (OpenAIGenerator_init example_world))) (lit ''URL'') \<noteq> None
   \<and> \<not> isl (fst (OpenAIGenerator_init ambient_world))
   \<and> config (projr (fst (OpenAIGenerator_init ambient_world))) (lit ''API Key'') = None
   \<and> config (projr (fst (OpenAIGenerator_init ambient_world))) (lit ''URL'') = None"
proof -
  have built: "\<not> isl (fst (OpenAIGenerator_init example_world))"
    by (simp add: OpenAIGenerator_init_def get_models_def get_token_def default_models_def Let_def)
  have built': "\<not> isl (fst (OpenAIGenerator_init ambient_world))"
    by (simp add: OpenAIGenerator_init_def get_models_def get_token_def default_models_def
          fetch_models_def os_getenv_def Let_def)
  have 1: "fst (OpenAIGenerator_init example_world)
             = Inr (projr (fst (OpenAIGenerator_init example_world)))"
    using built by simp
  have 2: "fst (OpenAIGenerator_init ambient_world)
             = Inr (projr (fst (OpenAIGenerator_init ambient_world)))"
    using built' by simp
  show ?thesis
    using config_slots_follow_ambient [OF 1] config_slots_follow_ambient [OF 2] built built'
    by (simp add: get_token_def)
qed

text \<open>
  C10. When \<^verbatim>\<open>get_models\<close> returns the empty list, the constructor raises the
  \<^verbatim>\<open>IndexError\<close> of \<^verbatim>\<open>models[0]\<close> and builds no object; the fallback list is not used.
  This holds when \<^verbatim>\<open>OPENAI_MODEL\<close> is unset, and when it is set as well: the argument
  \<^verbatim>\<open>models[0]\<close> is evaluated before \<^verbatim>\<open>os.getenv\<close> is called.
\<close>

theorem empty_catalog_fails_construction:
  assumes "fst (get_models self w (get_token w (lit ''OPENAI_API_KEY''))
                  (os_getenv w (lit ''OPENAI_BASE_URL'') (lit ''https://api.openai.com/v1''))) = []"
  shows "fst (OpenAIGenerator_init w) = Inl IndexError"
proof -
  have "get_models \<lparr>name = lit ''OpenAI'',
          description = lit ''Using OpenAI LLM models to generate answers to queries'',
          context_window = 10000, config = Generator_config\<rparr> w
          (get_token w (lit ''OPENAI_API_KEY''))
          (os_getenv w (lit ''OPENAI_BASE_URL'') (lit ''https://api.openai.com/v1''))
        = get_models self w (get_token w (lit ''OPENAI_API_KEY''))
          (os_getenv w (lit ''OPENAI_BASE_URL'') (lit ''https://api.openai.com/v1''))"
    by (rule get_models_self)
  with assms show ?thesis
    by (simp add: OpenAIGenerator_init_def Let_def split_def)
qed

text \<open>
  The empty list is reached: with an ambient key and no \<^verbatim>\<open>OPENAI_MODEL\<close>, a discovery
  response answered with the status 200 whose only identifier contains \<^verbatim>\<open>embedding\<close>.
\<close>

theorem empty_catalog_fails_construction_witness:
  \<open>environ (with_models ambient_world 200 (lit ''{"data":[{"id":"text-embedding-3"}]}''))
      (lit ''OPENAI_MODEL'') = None
   \<and> fst (get_models example_self
        (with_models ambient_world 200 (lit ''{"data":[{"id":"text-embedding-3"}]}''))
        (get_token (with_models ambient_world 200 (lit ''{"data":[{"id":"text-embedding-3"}]}''))
           (lit ''OPENAI_API_KEY''))
        (os_getenv (with_models ambient_world 200 (lit ''{"data":[{"id":"text-embedding-3"}]}''))
           (lit ''OPENAI_BASE_URL'') (lit ''https://api.openai.com/v1''))) = []
   \<and> fst (OpenAIGenerator_init
        (with_models ambient_world 200 (lit ''{"data":[{"id":"text-embedding-3"}]}'')))
     = Inl IndexError\<close>
proof -
  let ?w = \<open>with_models ambient_world 200 (lit ''{"data":[{"id":"text-embedding-3"}]}'')\<close>
  have empty: "fst (get_models example_self ?w (get_token ?w (lit ''OPENAI_API_KEY''))
                 (os_getenv ?w (lit ''OPENAI_BASE_URL'') (lit ''https://api.openai.com/v1''))) = []"
    by (simp add: get_models_def get_token_def os_getenv_def fetch_models_def
          raise_for_status_def example_loads_def sublist_code Let_def)
  show ?thesis
    using empty_catalog_fails_construction [OF empty] empty
    by simp
qed

end
